theory Spec2Isabelle
  imports Complex_Main "HOL-Library.AList" "HOL-Library.Char_ord" "HOL-Library.List_Lexorder"
    "HOL-Library.Product_Lexorder"
begin

section \<open>Data model\<close>

text \<open>
  Python values that the scripts move around. A \<open>datetime\<close> is a count of microseconds,
  so that \<open>end - start\<close> is a \<open>timedelta\<close> in microseconds. A decoded JSON body is a
  \<open>json\<close> value; Python's \<open>float\<close> is stood for by an exact rational.
\<close>

type_synonym datetime = int

datatype json =
    JNull
  | JBool bool
  | JInt int
  | JFloat rat
  | JStr string
  | JList "json list"
  | JObj "(string \<times> json) list"

text \<open>
  The exceptions the scripts can meet. \<open>is_Exception\<close> says which of them derive from
  Python's \<open>Exception\<close> (and so are caught by \<open>except Exception\<close>); \<open>CancelledError\<close>
  and \<open>KeyboardInterrupt\<close> derive from \<open>BaseException\<close> only.
\<close>

datatype exn =
    TypeError
  | AttributeError
  | ZeroDivisionError
  | TransportError
  | CancelledError
  | KeyboardInterrupt

fun is_Exception :: "exn \<Rightarrow> bool" where
  "is_Exception CancelledError = False"
| "is_Exception KeyboardInterrupt = False"
| "is_Exception _ = True"

text \<open>
  The keys and values of an event's application properties are Python strings or
  \<open>bytes\<close> objects (the client library types the mapping as \<open>Dict[Union[str, bytes], Any]\<close>
  and hands received names and strings over as \<open>bytes\<close>). A \<open>str\<close> and a \<open>bytes\<close>
  are never equal, also as dictionary keys.
\<close>

datatype pyval = PStr string | PBytes string

text \<open>
  A received event, as the handlers read it: the attributes \<open>offset\<close>,
  \<open>sequence_number\<close>, \<open>enqueued_time\<close> and \<open>properties\<close>, and the results of the
  two decoding methods \<open>body_as_json()\<close> and \<open>body_as_str()\<close>, each of which either
  returns a value or raises. The partition context is read only for its \<open>partition_id\<close>.
\<close>

record event =
  ev_offset :: string
  ev_sequence_number :: int
  ev_enqueued_time :: datetime
  ev_properties :: "(pyval \<times> pyval) list"
  body_as_json :: "exn + json"
  body_as_str :: "exn + string"

type_synonym partition_context = string

text \<open>A Python \<open>dict\<close> keeps insertion order: an association list with distinct keys.\<close>

definition dict_get :: "('k \<times> 'v) list \<Rightarrow> 'k \<Rightarrow> 'v \<Rightarrow> 'v" where
  "dict_get d k dflt = (case map_of d k of None \<Rightarrow> dflt | Some v \<Rightarrow> v)"

section \<open>data_explorer_demo.py: the collecting explorer\<close>

text \<open>The dictionary \<open>event_data\<close> built by \<open>on_event\<close>, one record field per key.\<close>

record event_data =
  partition_id :: string
  offset :: string
  sequence_number :: int
  enqueued_time :: datetime
  properties :: "(pyval \<times> pyval) list"
  body :: json

text \<open>The dictionary \<open>self.stats\<close>, and the explorer object of \<open>__init__\<close>.\<close>

record stats =
  total_events :: int
  events_by_type :: "(pyval \<times> int) list"
  events_by_partition :: "(string \<times> int) list"
  start_time :: "datetime option"
  end_time :: "datetime option"

text \<open>
  A handler runs against the transport, whose only state it touches is the list of
  checkpoints it was asked to record: (partition, offset, sequence number), oldest
  first. Each script's state extends this record with its own fields; for
  \<open>EventHubDataExplorer\<close> these are \<open>self.events_buffer\<close> and \<open>self.stats\<close>.
\<close>

type_synonym checkpoint = "string \<times> string \<times> int"

record transport =
  checkpoints :: "checkpoint list"

record explorer = transport +
  events_buffer :: "event_data list"
  stats :: stats

definition init_stats :: stats where
  "init_stats = \<lparr>total_events = 0, events_by_type = [], events_by_partition = [],
     start_time = None, end_time = None\<rparr>"

definition init_explorer :: explorer where
  "init_explorer = \<lparr>checkpoints = [], events_buffer = [], stats = init_stats\<rparr>"

text \<open>\<open>_parse_event_body\<close>: try \<open>body_as_json()\<close>; on any exception, \<open>body_as_str()\<close>,
  outside of any \<open>try\<close>, so that its own exception propagates.\<close>

definition parse_event_body :: "event \<Rightarrow> exn + json" where
  "parse_event_body ev =
     (case body_as_json ev of
        Inr j \<Rightarrow> Inr j
      | Inl _ \<Rightarrow> (case body_as_str ev of Inr s \<Rightarrow> Inr (JStr s) | Inl e \<Rightarrow> Inl e))"

definition mk_event_data :: "partition_context \<Rightarrow> event \<Rightarrow> json \<Rightarrow> event_data" where
  "mk_event_data pc ev b =
     \<lparr>partition_id = pc, offset = ev_offset ev, sequence_number = ev_sequence_number ev,
      enqueued_time = ev_enqueued_time ev, properties = ev_properties ev, body = b\<rparr>"

text \<open>
  The statements of \<open>on_event\<close> after the construction of \<open>event_data\<close>, each one a
  step on the world that returns the new world and the exception it raised, if any.
  A run of steps stops at the first exception and keeps the mutations made so far.
\<close>

type_synonym 'w step = "'w \<Rightarrow> 'w \<times> exn option"

fun run_steps :: "'w step list \<Rightarrow> 'w \<Rightarrow> 'w \<times> exn option" where
  "run_steps [] w = (w, None)"
| "run_steps (f # fs) w =
     (case f w of (w', None) \<Rightarrow> run_steps fs w' | (w', Some e) \<Rightarrow> (w', Some e))"

definition buffer_append :: "event_data \<Rightarrow> explorer step" where
  "buffer_append d w = (w\<lparr>events_buffer := events_buffer w @ [d]\<rparr>, None)"

definition count_total :: "explorer step" where
  "count_total w = (w\<lparr>stats := (stats w)\<lparr>total_events := total_events (stats w) + 1\<rparr>\<rparr>, None)"

definition count_type :: "event_data \<Rightarrow> explorer step" where
  "count_type d w =
     (let event_type = dict_get (properties d) (PStr ''event_type'') (PStr ''unknown'');
          by_type = events_by_type (stats w)
      in (w\<lparr>stats := (stats w)\<lparr>events_by_type :=
              AList.update event_type (dict_get by_type event_type 0 + 1) by_type\<rparr>\<rparr>, None))"

definition count_partition :: "event_data \<Rightarrow> explorer step" where
  "count_partition d w =
     (let by_part = events_by_partition (stats w)
      in (w\<lparr>stats := (stats w)\<lparr>events_by_partition :=
              AList.update (partition_id d) (dict_get by_part (partition_id d) 0 + 1) by_part\<rparr>\<rparr>,
          None))"

text \<open>
  \<open>partition_context.update_checkpoint(event)\<close> is the transport's: it records the
  checkpoint or raises. Its outcome \<open>ck\<close> is an input of the model (\<open>None\<close>: recorded).
\<close>

definition update_checkpoint ::
  "exn option \<Rightarrow> partition_context \<Rightarrow> event \<Rightarrow> ('a transport_scheme) step" where
  "update_checkpoint ck pc ev w =
     (case ck of
        None \<Rightarrow> (w\<lparr>checkpoints := checkpoints w @ [(pc, ev_offset ev, ev_sequence_number ev)]\<rparr>, None)
      | Some e \<Rightarrow> (w, Some e))"

definition on_event_steps ::
  "exn option \<Rightarrow> partition_context \<Rightarrow> event \<Rightarrow> event_data \<Rightarrow> explorer step list" where
  "on_event_steps ck pc ev d =
     [buffer_append d, count_total, count_type d, count_partition d, update_checkpoint ck pc ev]"

definition on_event :: "exn option \<Rightarrow> partition_context \<Rightarrow> event \<Rightarrow> explorer step" where
  "on_event ck pc ev w =
     (case parse_event_body ev of
        Inl e \<Rightarrow> (w, Some e)
      | Inr b \<Rightarrow> run_steps (on_event_steps ck pc ev (mk_event_data pc ev b)) w)"

text \<open>
  A delivery is one invocation of the handler by the transport: the partition context,
  the event, and what \<open>update_checkpoint\<close> will do. \<open>handle_all\<close> is the world after the
  handler has been invoked on each delivery in turn, whatever each invocation raised.
\<close>

type_synonym delivery = "exn option \<times> partition_context \<times> event"

fun handle_all :: "delivery list \<Rightarrow> explorer \<Rightarrow> explorer" where
  "handle_all [] w = w"
| "handle_all ((ck, pc, ev) # ds) w = handle_all ds (fst (on_event ck pc ev w))"

definition sum_counts :: "('k \<times> int) list \<Rightarrow> int" where
  "sum_counts d = sum_list (map snd d)"

text \<open>
  \<open>collect_events\<close>: set \<open>start_time\<close>, let the transport's \<open>receive\<close> invoke the handler
  on the deliveries, and then see how \<open>receive\<close> ends: it returns (\<open>None\<close>) or raises.
  Only \<open>asyncio.CancelledError\<close> is caught; \<open>end_time\<close> is assigned after the \<open>try\<close>
  statement, so an exception that is not caught leaves the method before the assignment.
  \<open>t0\<close> and \<open>t1\<close> are the two readings of \<open>datetime.utcnow()\<close>. The task made from
  \<open>_stop_after_delay\<close> runs beside \<open>receive\<close>; how \<open>receive\<close> ends is the input \<open>stop\<close>.
\<close>

definition collect_events ::
  "datetime \<Rightarrow> delivery list \<Rightarrow> exn option \<Rightarrow> datetime \<Rightarrow> explorer step" where
  "collect_events t0 ds stop t1 w =
     (let w1 = w\<lparr>stats := (stats w)\<lparr>start_time := Some t0\<rparr>\<rparr>;
          w2 = handle_all ds w1
      in (case stop of
            None \<Rightarrow> (w2\<lparr>stats := (stats w2)\<lparr>end_time := Some t1\<rparr>\<rparr>, None)
          | Some e \<Rightarrow>
              if e = CancelledError
              then (w2\<lparr>stats := (stats w2)\<lparr>end_time := Some t1\<rparr>\<rparr>, None)
              else (w2, Some e)))"

subsection \<open>display_summary\<close>

text \<open>
  What \<open>display_summary\<close> prints: the duration (microseconds), the rate line when there
  is one, and one line (key, count, percentage) per entry of each breakdown. Python's
  true division raises \<open>ZeroDivisionError\<close> on a zero divisor; subtracting with a
  \<open>None\<close> operand raises \<open>TypeError\<close>.
\<close>

record summary =
  sm_duration :: int
  sm_rate :: "rat option"
  sm_by_type :: "(pyval \<times> int \<times> rat) list"
  sm_by_partition :: "(string \<times> int \<times> rat) list"

definition true_div :: "rat \<Rightarrow> rat \<Rightarrow> exn + rat" where
  "true_div a b = (if b = 0 then Inl ZeroDivisionError else Inr (a / b))"

definition total_seconds :: "int \<Rightarrow> rat" where
  "total_seconds d = of_int d / 1000000"

fun percentage_lines :: "int \<Rightarrow> ('k \<times> int) list \<Rightarrow> exn + ('k \<times> int \<times> rat) list" where
  "percentage_lines tot [] = Inr []"
| "percentage_lines tot ((k, c) # rest) =
     (case true_div (of_int c) (of_int tot) of
        Inl e \<Rightarrow> Inl e
      | Inr q \<Rightarrow>
          (case percentage_lines tot rest of
             Inl e \<Rightarrow> Inl e
           | Inr ls \<Rightarrow> Inr ((k, c, q * 100) # ls)))"

definition display_summary :: "explorer \<Rightarrow> exn + summary" where
  "display_summary w =
     (case (end_time (stats w), start_time (stats w)) of
        (Some t1, Some t0) \<Rightarrow>
          (let duration = t1 - t0; tot = total_events (stats w) in
           (case (if tot > 0
                  then map_sum id Some (true_div (of_int tot) (total_seconds duration))
                  else Inr None) of
              Inl e \<Rightarrow> Inl e
            | Inr rate \<Rightarrow>
                (case percentage_lines tot (events_by_type (stats w)) of
                   Inl e \<Rightarrow> Inl e
                 | Inr by_type \<Rightarrow>
                     (case percentage_lines tot (sort (events_by_partition (stats w))) of
                        Inl e \<Rightarrow> Inl e
                      | Inr by_part \<Rightarrow>
                          Inr \<lparr>sm_duration = duration, sm_rate = rate,
                               sm_by_type = by_type, sm_by_partition = by_part\<rparr>))))
      | _ \<Rightarrow> Inl TypeError)"

subsection \<open>display_recent_events\<close>

text \<open>
  The slice \<open>xs[i:]\<close> of Python: a negative start counts from the end and is clamped
  at the front. \<open>display_recent_events\<close> returns the numbered events in the order it
  prints them.
\<close>

definition slice_from :: "int \<Rightarrow> 'a list \<Rightarrow> 'a list" where
  "slice_from i xs =
     (if i < 0 then drop (nat (int (length xs) + i)) xs else drop (nat i) xs)"

definition recent_events :: "int \<Rightarrow> 'a list \<Rightarrow> 'a list" where
  "recent_events limit buf =
     (if int (length buf) > limit then slice_from (- limit) buf else buf)"

definition display_recent_events :: "int \<Rightarrow> explorer \<Rightarrow> (nat \<times> event_data) list" where
  "display_recent_events limit w =
     List.enumerate 1 (rev (recent_events limit (events_buffer w)))"

subsection \<open>export_to_json\<close>

text \<open>
  \<open>export_to_json\<close> builds the document and hands it to
  \<open>json.dump(..., default=str)\<close>. The dump walks the document in order. At a dictionary
  key that is not a \<open>str\<close> (nor a number, a \<open>bool\<close> or \<open>None\<close>) it raises
  \<open>TypeError\<close>: \<open>default\<close> is applied to values only. A value it cannot serialise, here
  a \<open>datetime\<close> or a \<open>bytes\<close>, is replaced by \<open>default\<close> of it. The result below is
  the exception raised, or the JSON value whose text is written to the file.
  \<open>isoformat\<close> is \<open>datetime.isoformat\<close>, \<open>str_py\<close> is the built-in \<open>str\<close> on the
  objects that reach \<open>default\<close>, and \<open>now\<close> is the reading of \<open>datetime.utcnow()\<close>.
\<close>

datatype pyobj = ODatetime datetime | OBytes string

definition dump_key :: "pyval \<Rightarrow> exn + string" where
  "dump_key k = (case k of PStr s \<Rightarrow> Inr s | PBytes _ \<Rightarrow> Inl TypeError)"

definition dump_val :: "(pyobj \<Rightarrow> string) \<Rightarrow> pyval \<Rightarrow> json" where
  "dump_val str_py v = (case v of PStr s \<Rightarrow> JStr s | PBytes b \<Rightarrow> JStr (str_py (OBytes b)))"

fun dump_dict :: "('v \<Rightarrow> json) \<Rightarrow> (pyval \<times> 'v) list \<Rightarrow> exn + (string \<times> json) list" where
  "dump_dict f [] = Inr []"
| "dump_dict f ((k, v) # rest) =
     (case dump_key k of
        Inl e \<Rightarrow> Inl e
      | Inr s \<Rightarrow>
          (case dump_dict f rest of
             Inl e \<Rightarrow> Inl e
           | Inr kvs \<Rightarrow> Inr ((s, f v) # kvs)))"

fun dump_list :: "('a \<Rightarrow> exn + json) \<Rightarrow> 'a list \<Rightarrow> exn + json list" where
  "dump_list f [] = Inr []"
| "dump_list f (x # xs) =
     (case f x of
        Inl e \<Rightarrow> Inl e
      | Inr j \<Rightarrow> (case dump_list f xs of Inl e \<Rightarrow> Inl e | Inr js \<Rightarrow> Inr (j # js)))"

definition opt_json :: "('a \<Rightarrow> json) \<Rightarrow> 'a option \<Rightarrow> json" where
  "opt_json f x = (case x of None \<Rightarrow> JNull | Some v \<Rightarrow> f v)"

definition event_data_json :: "(pyobj \<Rightarrow> string) \<Rightarrow> event_data \<Rightarrow> exn + json" where
  "event_data_json str_py d =
     (case dump_dict (dump_val str_py) (properties d) of
        Inl e \<Rightarrow> Inl e
      | Inr props \<Rightarrow>
          Inr (JObj [(''partition_id'', JStr (partition_id d)),
                     (''offset'', JStr (offset d)),
                     (''sequence_number'', JInt (sequence_number d)),
                     (''enqueued_time'', JStr (str_py (ODatetime (enqueued_time d)))),
                     (''properties'', JObj props),
                     (''body'', body d)]))"

definition stats_json :: "(pyobj \<Rightarrow> string) \<Rightarrow> stats \<Rightarrow> exn + json" where
  "stats_json str_py s =
     (case dump_dict JInt (events_by_type s) of
        Inl e \<Rightarrow> Inl e
      | Inr by_type \<Rightarrow>
          Inr (JObj [(''total_events'', JInt (total_events s)),
                     (''events_by_type'', JObj by_type),
                     (''events_by_partition'',
                        JObj (map (\<lambda>(k, c). (k, JInt c)) (events_by_partition s))),
                     (''start_time'', opt_json (\<lambda>t. JStr (str_py (ODatetime t))) (start_time s)),
                     (''end_time'', opt_json (\<lambda>t. JStr (str_py (ODatetime t))) (end_time s))]))"

definition export_to_json ::
  "(datetime \<Rightarrow> string) \<Rightarrow> (pyobj \<Rightarrow> string) \<Rightarrow> datetime \<Rightarrow> explorer \<Rightarrow> exn + json" where
  "export_to_json isoformat str_py now w =
     (case stats_json str_py (stats w) of
        Inl e \<Rightarrow> Inl e
      | Inr statistics \<Rightarrow>
          (case dump_list (event_data_json str_py) (events_buffer w) of
             Inl e \<Rightarrow> Inl e
           | Inr events \<Rightarrow>
               Inr (JObj
                 [(''export_info'',
                     JObj [(''exported_at'', JStr (isoformat now @ ''Z'')),
                           (''total_events'', JInt (int (length (events_buffer w)))),
                           (''collection_period'',
                              JObj [(''start'', opt_json (\<lambda>t. JStr (isoformat t @ ''Z''))
                                                 (start_time (stats w))),
                                    (''end'', opt_json (\<lambda>t. JStr (isoformat t @ ''Z''))
                                               (end_time (stats w)))])]),
                  (''statistics'', statistics),
                  (''events'', JList events)])))"




subsection \<open>main\<close>

text \<open>
  \<open>main\<close> after the configuration check. In the \<open>try\<close> body: collect, summarise, show
  the last 5 events, export. \<open>except KeyboardInterrupt\<close> prints the summary;
  \<open>except Exception\<close> prints the error. An exception raised inside a handler, and one
  that neither handler catches, leaves \<open>main\<close>.
\<close>

datatype main_result =
    Completed summary "(nat \<times> event_data) list" json
  | Interrupted summary
  | ErrorPrinted exn
  | Propagated exn

definition main_try_body ::
  "(datetime \<Rightarrow> string) \<Rightarrow> (pyobj \<Rightarrow> string) \<Rightarrow> datetime \<Rightarrow>
   datetime \<Rightarrow> delivery list \<Rightarrow> exn option \<Rightarrow> datetime \<Rightarrow> explorer \<Rightarrow>
   explorer \<times> (exn + main_result)" where
  "main_try_body isoformat str_py now t0 ds stop t1 w =
     (case collect_events t0 ds stop t1 w of
        (w', Some e) \<Rightarrow> (w', Inl e)
      | (w', None) \<Rightarrow>
          (case display_summary w' of
             Inl e \<Rightarrow> (w', Inl e)
           | Inr sm \<Rightarrow>
               (case export_to_json isoformat str_py now w' of
                  Inl e \<Rightarrow> (w', Inl e)
                | Inr doc \<Rightarrow> (w', Inr (Completed sm (display_recent_events 5 w') doc)))))"

definition main ::
  "(datetime \<Rightarrow> string) \<Rightarrow> (pyobj \<Rightarrow> string) \<Rightarrow> datetime \<Rightarrow>
   datetime \<Rightarrow> delivery list \<Rightarrow> exn option \<Rightarrow> datetime \<Rightarrow> main_result" where
  "main isoformat str_py now t0 ds stop t1 =
     (case main_try_body isoformat str_py now t0 ds stop t1 init_explorer of
        (w', Inr r) \<Rightarrow> r
      | (w', Inl e) \<Rightarrow>
          if e = KeyboardInterrupt
          then (case display_summary w' of Inl e' \<Rightarrow> Propagated e' | Inr sm \<Rightarrow> Interrupted sm)
          else if is_Exception e then ErrorPrinted e
          else Propagated e)"

section \<open>receive_events.py and demo.py: the printing handlers\<close>

text \<open>
  Console output is kept as a list of lines, one constructor per \<open>print\<close> of the
  handlers. The state of \<open>receive_events.py\<close> is the console and the transport; the
  state of \<open>receive_demo_events\<close> adds its local list \<open>events_received\<close>.
\<close>

datatype line =
    LPartition string
  | LOffset string
  | LSequence int
  | LEnqueued datetime
  | LProperties "(pyval \<times> pyval) list"
  | LBodyJson json
  | LBodyStr string
  | LRule
  | LReceived json
  | LError exn

record console = transport +
  printed :: "line list"

definition print_line :: "line \<Rightarrow> ('a console_scheme) step" where
  "print_line l w = (w\<lparr>printed := printed w @ [l]\<rparr>, None)"

text \<open>The \<open>try\<close>/\<open>except\<close> of \<open>receive_events.on_event\<close>: print the JSON body, or on
  any exception print \<open>body_as_str()\<close>, whose own exception propagates.\<close>

definition print_body :: "event \<Rightarrow> ('a console_scheme) step" where
  "print_body ev w =
     (case body_as_json ev of
        Inr j \<Rightarrow> print_line (LBodyJson j) w
      | Inl _ \<Rightarrow> (case body_as_str ev of Inr s \<Rightarrow> print_line (LBodyStr s) w | Inl e \<Rightarrow> (w, Some e)))"

definition receiver_on_event_steps ::
  "exn option \<Rightarrow> partition_context \<Rightarrow> event \<Rightarrow> console step list" where
  "receiver_on_event_steps ck pc ev =
     [print_line (LPartition pc), print_line (LOffset (ev_offset ev)),
      print_line (LSequence (ev_sequence_number ev)), print_line (LEnqueued (ev_enqueued_time ev)),
      print_line (LProperties (ev_properties ev)), print_body ev, print_line LRule,
      update_checkpoint ck pc ev]"

definition receiver_on_event :: "exn option \<Rightarrow> partition_context \<Rightarrow> event \<Rightarrow> console step" where
  "receiver_on_event ck pc ev w = run_steps (receiver_on_event_steps ck pc ev) w"

record demo_entry =
  de_partition :: string
  de_offset :: string
  de_properties :: "(pyval \<times> pyval) list"
  de_body :: json

record demo = console +
  events_received :: "demo_entry list"

text \<open>\<open>event_body.get(k, dflt)\<close>: only a JSON object decodes to a \<open>dict\<close>; any other
  decoded value has no \<open>get\<close> attribute.\<close>

fun py_get :: "json \<Rightarrow> string \<Rightarrow> json \<Rightarrow> exn + json" where
  "py_get (JObj kvs) k dflt = Inr (dict_get kvs k dflt)"
| "py_get _ k dflt = Inl AttributeError"

definition received_append :: "demo_entry \<Rightarrow> demo step" where
  "received_append d w = (w\<lparr>events_received := events_received w @ [d]\<rparr>, None)"

definition print_received :: "json \<Rightarrow> demo step" where
  "print_received b w =
     (case py_get b ''event_type'' (JStr ''unknown'') of
        Inl e \<Rightarrow> (w, Some e)
      | Inr v \<Rightarrow> print_line (LReceived v) w)"

definition demo_try_steps ::
  "exn option \<Rightarrow> partition_context \<Rightarrow> event \<Rightarrow> json \<Rightarrow> demo step list" where
  "demo_try_steps ck pc ev b =
     [received_append \<lparr>de_partition = pc, de_offset = ev_offset ev,
                       de_properties = ev_properties ev, de_body = b\<rparr>,
      print_received b,
      update_checkpoint ck pc ev]"

definition demo_try_body :: "exn option \<Rightarrow> partition_context \<Rightarrow> event \<Rightarrow> demo step" where
  "demo_try_body ck pc ev w =
     (case body_as_json ev of
        Inl e \<Rightarrow> (w, Some e)
      | Inr b \<Rightarrow> run_steps (demo_try_steps ck pc ev b) w)"

definition demo_on_event :: "exn option \<Rightarrow> partition_context \<Rightarrow> event \<Rightarrow> demo step" where
  "demo_on_event ck pc ev w =
     (case demo_try_body ck pc ev w of
        (w', None) \<Rightarrow> (w', None)
      | (w', Some e) \<Rightarrow> if is_Exception e then print_line (LError e) w' else (w', Some e))"

section \<open>The receive calls and the transport's starting position\<close>

text \<open>The keyword arguments that the three sessions pass to \<open>consumer.receive\<close>
  besides their handlers. None of them passes a checkpoint store.\<close>

record receive_call =
  starting_position :: string
  track_last_enqueued_event_properties :: bool

definition receive_events_call :: receive_call where
  "receive_events_call =
     \<lparr>starting_position = ''-1'', track_last_enqueued_event_properties = True\<rparr>"

definition collect_events_call :: receive_call where
  "collect_events_call =
     \<lparr>starting_position = ''-1'', track_last_enqueued_event_properties = True\<rparr>"

definition receive_demo_events_call :: receive_call where
  "receive_demo_events_call =
     \<lparr>starting_position = ''-1'', track_last_enqueued_event_properties = True\<rparr>"

text \<open>
  The transport is the Event Hubs client library, outside the repository. Its
  documentation of \<open>receive\<close> fixes two position tokens: \<open>"-1"\<close> receives from the
  beginning of the stream, \<open>"@latest"\<close> (the default) receives only new events. With no
  checkpoint data, a session that opens on a partition holding \<open>backlog\<close> and then
  getting \<open>fresh\<close> events is handed the events below; other positions are not modelled.
\<close>

datatype position = StartOfStream | NewEventsOnly

definition read_position :: "string \<Rightarrow> position option" where
  "read_position s =
     (if s = ''-1'' then Some StartOfStream
      else if s = ''@latest'' then Some NewEventsOnly
      else None)"

definition observed :: "receive_call \<Rightarrow> 'e list \<Rightarrow> 'e list \<Rightarrow> 'e list option" where
  "observed c backlog fresh =
     (case read_position (starting_position c) of
        None \<Rightarrow> None
      | Some StartOfStream \<Rightarrow> Some (backlog @ fresh)
      | Some NewEventsOnly \<Rightarrow> Some fresh)"

section \<open>send_events.py: the sender\<close>

text \<open>
  The dictionary returned by \<open>generate_sample_data\<close> and the \<open>EventData\<close> built from
  it. The generator is random: the sample of each iteration is an input of the model,
  and so is the outcome of handing the event to the transport (\<open>None\<close>: accepted).
\<close>

record sample =
  event_id :: string
  event_type :: string
  user_id :: string
  timestamp :: string
  data :: json
  metadata :: json

record event_out =
  out_body :: json
  out_properties :: "(string \<times> string) list"

definition make_event :: "sample \<Rightarrow> event_out" where
  "make_event s =
     \<lparr>out_body = JObj [(''event_id'', JStr (event_id s)), (''event_type'', JStr (event_type s)),
                       (''user_id'', JStr (user_id s)), (''timestamp'', JStr (timestamp s)),
                       (''data'', data s), (''metadata'', metadata s)],
      out_properties = [(''event_type'', event_type s), (''user_id'', user_id s),
                        (''timestamp'', timestamp s)]\<rparr>"

datatype sender_line =
    SStart int
  | SSent string string
  | SError exn
  | SDone int

record producer =
  transmitted :: "event_out list"
  sender_printed :: "sender_line list"

definition init_producer :: producer where
  "init_producer = \<lparr>transmitted = [], sender_printed = []\<rparr>"

definition sender_print :: "sender_line \<Rightarrow> producer step" where
  "sender_print l w = (w\<lparr>sender_printed := sender_printed w @ [l]\<rparr>, None)"

text \<open>\<open>send_single_event\<close>: the whole body is inside \<open>try\<close>; \<open>except Exception\<close>
  prints the error and returns.\<close>

definition send_single_event :: "exn option \<Rightarrow> sample \<Rightarrow> producer step" where
  "send_single_event outcome s w =
     (case outcome of
        None \<Rightarrow>
          sender_print (SSent (event_id s) (event_type s))
            (w\<lparr>transmitted := transmitted w @ [make_event s]\<rparr>)
      | Some e \<Rightarrow> if is_Exception e then sender_print (SError e) w else (w, Some e))"

text \<open>\<open>send_batch_events\<close>: iteration \<open>i\<close> of \<open>range(num_events)\<close> generates the sample
  \<open>snd (attempt i)\<close> and meets the transport outcome \<open>fst (attempt i)\<close>.\<close>

definition send_batch_events :: "int \<Rightarrow> (nat \<Rightarrow> exn option \<times> sample) \<Rightarrow> producer step" where
  "send_batch_events num_events attempt w =
     run_steps
       ([sender_print (SStart num_events)]
        @ map (\<lambda>i. send_single_event (fst (attempt i)) (snd (attempt i))) [0..<nat num_events]
        @ [sender_print (SDone num_events)])
       w"

text \<open>The line that \<open>send_single_event\<close> prints for one attempt.\<close>

definition attempt_line :: "exn option \<times> sample \<Rightarrow> sender_line" where
  "attempt_line a =
     (case fst a of None \<Rightarrow> SSent (event_id (snd a)) (event_type (snd a)) | Some e \<Rightarrow> SError e)"

section \<open>Invariants of the explorer\<close>

text \<open>
  The predicates that the handler maintains: both breakdowns add up to the total, the
  buffer holds as many entries as the total says, and every count in a breakdown is
  positive.
\<close>

definition counts_agree :: "explorer \<Rightarrow> bool" where
  "counts_agree w \<longleftrightarrow>
     sum_counts (events_by_type (stats w)) = total_events (stats w) \<and>
     sum_counts (events_by_partition (stats w)) = total_events (stats w)"


definition counts_positive :: "('k \<times> int) list \<Rightarrow> bool" where
  "counts_positive d = list_all (\<lambda>(k, c). 0 < c) d"

definition breakdowns_positive :: "explorer \<Rightarrow> bool" where
  "breakdowns_positive w \<longleftrightarrow>
     counts_positive (events_by_type (stats w)) \<and> counts_positive (events_by_partition (stats w))"

section \<open>Example inputs\<close>

text \<open>
  Four events: one whose body decodes as JSON and whose property names are \<open>str\<close>, the
  same with names and values as \<open>bytes\<close>, one whose body is a plain string (the JSON
  decoding raises), and one whose body decodes as neither.
\<close>

definition login_event :: event where
  "login_event =
     \<lparr>ev_offset = ''100'', ev_sequence_number = 7, ev_enqueued_time = 5,
      ev_properties = [(PStr ''event_type'', PStr ''login'')],
      body_as_json = Inr (JObj []),
      body_as_str = Inr ''{}''\<rparr>"

definition library_event :: event where
  "library_event =
     \<lparr>ev_offset = ''103'', ev_sequence_number = 10, ev_enqueued_time = 8,
      ev_properties = [(PBytes ''event_type'', PBytes ''login'')],
      body_as_json = Inr (JObj []),
      body_as_str = Inr ''{}''\<rparr>"

definition raw_event :: event where
  "raw_event =
     \<lparr>ev_offset = ''101'', ev_sequence_number = 8, ev_enqueued_time = 6,
      ev_properties = [],
      body_as_json = Inl TypeError,
      body_as_str = Inr ''hello''\<rparr>"

definition undecodable_event :: event where
  "undecodable_event =
     \<lparr>ev_offset = ''102'', ev_sequence_number = 9, ev_enqueued_time = 7,
      ev_properties = [],
      body_as_json = Inl TypeError,
      body_as_str = Inl TypeError\<rparr>"

definition init_demo :: demo where
  "init_demo = \<lparr>checkpoints = [], printed = [], events_received = []\<rparr>"

definition init_console :: console where
  "init_console = \<lparr>checkpoints = [], printed = []\<rparr>"

text \<open>A batch in which the transport refuses the second event and accepts the others.\<close>

definition sample_of :: "nat \<Rightarrow> sample" where
  "sample_of i =
     \<lparr>event_id = (if i = 0 then ''evt_0'' else if i = 1 then ''evt_1'' else ''evt_2''),
      event_type = ''purchase'', user_id = ''user_001'', timestamp = ''t'',
      data = JNull, metadata = JNull\<rparr>"

definition flaky_attempt :: "nat \<Rightarrow> exn option \<times> sample" where
  "flaky_attempt i = (if i = 1 then Some TransportError else None, sample_of i)"

definition caught_or_accepted :: "exn option \<Rightarrow> bool" where
  "caught_or_accepted outcome = (case outcome of None \<Rightarrow> True | Some e \<Rightarrow> is_Exception e)"

section \<open>What one handler invocation preserves\<close>

lemma sum_counts_bump:
  "sum_counts (AList.update k (dict_get d k 0 + 1) d) = sum_counts d + 1"
  by (induction d) (auto simp: sum_counts_def dict_get_def)

lemma counts_positive_bump:
  "counts_positive d \<Longrightarrow> counts_positive (AList.update k (dict_get d k 0 + 1) d)"
  by (induction d) (auto simp: counts_positive_def dict_get_def)

lemma counts_positive_length: "counts_positive d \<Longrightarrow> int (length d) \<le> sum_counts d"
  by (induction d) (auto simp: counts_positive_def sum_counts_def)

lemma counts_positive_zero: "counts_positive d \<Longrightarrow> sum_counts d = 0 \<Longrightarrow> d = []"
  using counts_positive_length [of d] by (cases d) auto

lemmas on_event_unfold =
  on_event_def on_event_steps_def buffer_append_def count_total_def count_type_def
  count_partition_def update_checkpoint_def Let_def

lemma on_event_counts_agree:
  "counts_agree w \<Longrightarrow> counts_agree (fst (on_event ck pc ev w))"
  by (cases ck) (auto simp: on_event_unfold counts_agree_def sum_counts_bump split: sum.splits)


lemma on_event_breakdowns_positive:
  "breakdowns_positive w \<Longrightarrow> breakdowns_positive (fst (on_event ck pc ev w))"
  by (cases ck)
     (auto simp: on_event_unfold breakdowns_positive_def counts_positive_bump split: sum.splits)

lemma on_event_times:
  "start_time (stats (fst (on_event ck pc ev w))) = start_time (stats w) \<and>
   end_time (stats (fst (on_event ck pc ev w))) = end_time (stats w)"
  by (cases ck) (auto simp: on_event_unfold split: sum.splits)

section \<open>What a whole session preserves\<close>

lemma handle_all_counts_agree:
  "counts_agree w \<Longrightarrow> counts_agree (handle_all ds w)"
  by (induction ds w rule: handle_all.induct) (auto simp: on_event_counts_agree)


lemma handle_all_breakdowns_positive:
  "breakdowns_positive w \<Longrightarrow> breakdowns_positive (handle_all ds w)"
  by (induction ds w rule: handle_all.induct) (auto simp: on_event_breakdowns_positive)

lemma handle_all_times:
  "start_time (stats (handle_all ds w)) = start_time (stats w) \<and>
   end_time (stats (handle_all ds w)) = end_time (stats w)"
  by (induction ds w rule: handle_all.induct) (auto simp: on_event_times)

lemma init_counts_agree: "counts_agree init_explorer"
  by (simp add: counts_agree_def init_explorer_def init_stats_def sum_counts_def)


lemma init_breakdowns_positive: "breakdowns_positive init_explorer"
  by (simp add: breakdowns_positive_def counts_positive_def init_explorer_def init_stats_def)

lemma collect_events_caught:
  "stop = None \<or> stop = Some CancelledError \<Longrightarrow>
   collect_events t0 ds stop t1 w =
     ((handle_all ds (w\<lparr>stats := (stats w)\<lparr>start_time := Some t0\<rparr>\<rparr>))
        \<lparr>stats := (stats (handle_all ds (w\<lparr>stats := (stats w)\<lparr>start_time := Some t0\<rparr>\<rparr>)))
           \<lparr>end_time := Some t1\<rparr>\<rparr>, None)"
  by (auto simp: collect_events_def Let_def)

lemma collect_events_uncaught:
  "e \<noteq> CancelledError \<Longrightarrow>
   collect_events t0 ds (Some e) t1 w =
     (handle_all ds (w\<lparr>stats := (stats w)\<lparr>start_time := Some t0\<rparr>\<rparr>), Some e)"
  by (simp add: collect_events_def Let_def)

section \<open>Statistics\<close>

text \<open>
  C2. After the handler has processed any sequence of events, from any partitions in any
  interleaving and with or without an \<open>event_type\<close> property, the counts by type add up
  to the total and so do the counts by partition.
\<close>

theorem stats_sums_equal_total:
  "sum_counts (events_by_type (stats (handle_all ds init_explorer)))
     = total_events (stats (handle_all ds init_explorer)) \<and>
   sum_counts (events_by_partition (stats (handle_all ds init_explorer)))
     = total_events (stats (handle_all ds init_explorer))"
  using handle_all_counts_agree [OF init_counts_agree, of ds]
  by (simp add: counts_agree_def)

section \<open>The summary\<close>

text \<open>
  C3. When a session that started from a fresh explorer ends with \<open>total_events = 0\<close>
  and both times set, the summary completes: the rate is skipped by its guard, and the
  handler has left no entry in either breakdown, so no percentage is computed, nothing
  is divided by zero and no entry is reported with anything but 0%.
\<close>

theorem summary_zero_total_reachable:
  assumes stop: "stop = None \<or> stop = Some CancelledError"
    and zero: "total_events (stats (fst (collect_events t0 ds stop t1 init_explorer))) = 0"
  shows "display_summary (fst (collect_events t0 ds stop t1 init_explorer)) =
           Inr \<lparr>sm_duration = t1 - t0, sm_rate = None, sm_by_type = [], sm_by_partition = []\<rparr>"
proof -
  define w1 where "w1 = init_explorer\<lparr>stats := (stats init_explorer)\<lparr>start_time := Some t0\<rparr>\<rparr>"
  define w2 where "w2 = handle_all ds w1"
  have c: "collect_events t0 ds stop t1 init_explorer =
             (w2\<lparr>stats := (stats w2)\<lparr>end_time := Some t1\<rparr>\<rparr>, None)"
    using collect_events_caught [OF stop] by (simp add: w1_def w2_def)
  have "counts_agree w1" "breakdowns_positive w1"
    by (simp_all add: w1_def counts_agree_def breakdowns_positive_def counts_positive_def
        init_explorer_def init_stats_def sum_counts_def)
  then have agree: "counts_agree w2" and pos: "breakdowns_positive w2"
    by (simp_all add: w2_def handle_all_counts_agree handle_all_breakdowns_positive)
  have tot: "total_events (stats w2) = 0"
    using zero by (simp add: c)
  have ty: "events_by_type (stats w2) = []"
    using agree pos tot counts_positive_zero [of "events_by_type (stats w2)"]
    by (simp add: counts_agree_def breakdowns_positive_def)
  have pa: "events_by_partition (stats w2) = []"
    using agree pos tot counts_positive_zero [of "events_by_partition (stats w2)"]
    by (simp add: counts_agree_def breakdowns_positive_def)
  have st: "start_time (stats w2) = Some t0"
    using handle_all_times [of ds w1] by (simp add: w2_def w1_def)
  show ?thesis
    by (simp add: c display_summary_def tot ty pa st)
qed

text \<open>A session whose only delivery could not be decoded, ended by the transport.\<close>

theorem summary_zero_total_reachable_witness:
  "total_events (stats (fst (collect_events 0 [(None, ''0'', undecodable_event)] None 9
      init_explorer))) = 0 \<and>
   display_summary (fst (collect_events 0 [(None, ''0'', undecodable_event)] None 9
      init_explorer)) =
     Inr \<lparr>sm_duration = 9, sm_rate = None, sm_by_type = [], sm_by_partition = []\<rparr>"
proof -
  have z: "total_events (stats (fst (collect_events 0 [(None, ''0'', undecodable_event)] None 9
             init_explorer))) = 0"
    by (simp add: collect_events_def on_event_def parse_event_body_def undecodable_event_def
        init_explorer_def init_stats_def)
  show ?thesis
    using z summary_zero_total_reachable [OF _ z] by simp
qed

section \<open>Ending a session\<close>

text \<open>
  C5. A session of two events that a user interrupt ends: \<open>KeyboardInterrupt\<close> is not
  \<open>asyncio.CancelledError\<close>, so it leaves \<open>collect_events\<close> before the assignment to
  \<open>end_time\<close>. The buffer holds the two entries, but \<open>end_time\<close> is still \<open>None\<close> when
  the \<open>except KeyboardInterrupt\<close> branch of \<open>main\<close> prints the summary, whose
  subtraction then raises \<open>TypeError\<close> out of \<open>main\<close>.
\<close>

theorem interrupt_leaves_end_time_unset:
  "end_time (stats (fst (collect_events 0 [(None, ''0'', login_event), (None, ''1'', raw_event)]
       (Some KeyboardInterrupt) 9 init_explorer))) = None \<and>
   length (events_buffer (fst (collect_events 0 [(None, ''0'', login_event), (None, ''1'', raw_event)]
       (Some KeyboardInterrupt) 9 init_explorer))) = 2 \<and>
   main isoformat str_dt now 0 [(None, ''0'', login_event), (None, ''1'', raw_event)]
       (Some KeyboardInterrupt) 9 = Propagated TypeError"
  by (simp add: main_def main_try_body_def collect_events_def display_summary_def
      on_event_unfold parse_event_body_def login_event_def raw_event_def init_explorer_def
      init_stats_def)

text \<open>The sibling path: a cancellation is caught and \<open>end_time\<close> is set; any other
  exception leaves \<open>end_time\<close> as it was.\<close>

lemma collect_events_cancelled_end_time:
  "end_time (stats (fst (collect_events t0 ds (Some CancelledError) t1 w))) = Some t1"
  by (simp add: collect_events_def Let_def)

lemma collect_events_uncaught_end_time:
  "e \<noteq> CancelledError \<Longrightarrow>
   end_time (stats (fst (collect_events t0 ds (Some e) t1 w))) = end_time (stats w)"
  using handle_all_times [of ds "w\<lparr>stats := (stats w)\<lparr>start_time := Some t0\<rparr>\<rparr>"]
  by (simp add: collect_events_uncaught)

section \<open>Recent events\<close>

text \<open>For a positive limit the selection is the last \<open>min limit (len buffer)\<close> entries,
  newest first.\<close>

lemma recent_events_length:
  "0 < limit \<Longrightarrow> length (recent_events limit buf) = min (nat limit) (length buf)"
  by (auto simp: recent_events_def slice_from_def)

lemma recent_events_newest_first:
  "0 < limit \<Longrightarrow> rev (recent_events limit buf) = take (nat limit) (rev buf)"
  by (auto simp: recent_events_def slice_from_def take_rev nat_diff_distrib)

text \<open>
  C4. With \<open>limit = 0\<close> and two buffered events, the slice \<open>buffer[-0:]\<close> is the whole
  buffer: both events are shown, under the heading for 0 events.
\<close>

theorem recent_events_zero_limit:
  "display_recent_events 0
     (handle_all [(None, ''0'', login_event), (None, ''1'', raw_event)] init_explorer)
   = [(1, mk_event_data ''1'' raw_event (JStr ''hello'')),
      (2, mk_event_data ''0'' login_event (JObj []))]"
  by (simp add: display_recent_events_def recent_events_def slice_from_def enumerate_eq_zip
      on_event_unfold parse_event_body_def login_event_def raw_event_def init_explorer_def
      init_stats_def upt_rec)

section \<open>Export\<close>

text \<open>An event whose property names arrive as \<open>bytes\<close> has no \<open>"event_type"\<close> key for
  the handler: it is counted under \<open>"unknown"\<close> and buffered with its \<open>bytes\<close> keys.\<close>

lemma bytes_named_type_is_unknown:
  "events_by_type (stats (handle_all [(None, ''0'', library_event)] init_explorer))
     = [(PStr ''unknown'', 1)] \<and>
   map properties (events_buffer (handle_all [(None, ''0'', library_event)] init_explorer))
     = [[(PBytes ''event_type'', PBytes ''login'')]]"
  by (simp add: on_event_unfold parse_event_body_def mk_event_data_def library_event_def
      init_explorer_def init_stats_def dict_get_def)

text \<open>
  C6. A session that buffered one event whose property names are \<open>bytes\<close>, as the client
  library hands them over: the dump raises \<open>TypeError\<close> at the key, no document is
  produced to read back, and \<open>main\<close> prints the error.
\<close>

theorem export_fails_on_bytes_keys:
  "export_to_json isoformat str_py now
     (fst (collect_events 0 [(None, ''0'', library_event)] None 9 init_explorer))
     = Inl TypeError \<and>
   main isoformat str_py now 0 [(None, ''0'', library_event)] None 9 = ErrorPrinted TypeError"
  by (simp add: main_def main_try_body_def collect_events_def display_summary_def true_div_def
      total_seconds_def export_to_json_def stats_json_def event_data_json_def dump_key_def
      on_event_unfold parse_event_body_def mk_event_data_def library_event_def
      init_explorer_def init_stats_def dict_get_def)

section \<open>Starting position\<close>

text \<open>
  C1. All three sessions pass \<open>"-1"\<close>, the start of the stream, where the comments at
  the call sites say "most recent events": an event already in the partition when the
  session opens is handed to the handler.
\<close>

theorem backlog_is_replayed:
  "observed collect_events_call [login_event] [] = Some [login_event] \<and>
   observed receive_events_call [login_event] [] = Some [login_event] \<and>
   observed receive_demo_events_call [login_event] [] = Some [login_event]"
  by (simp add: observed_def read_position_def collect_events_call_def receive_events_call_def
      receive_demo_events_call_def)

section \<open>Sending a batch\<close>

lemma run_steps_append:
  "run_steps (fs @ gs) w =
     (case run_steps fs w of (w', None) \<Rightarrow> run_steps gs w' | (w', Some e) \<Rightarrow> (w', Some e))"
  by (induction fs arbitrary: w) (auto split: prod.splits option.splits)

lemma send_single_event_caught:
  "caught_or_accepted outcome \<Longrightarrow>
   send_single_event outcome s w =
     (w\<lparr>transmitted := transmitted w @ (if outcome = None then [make_event s] else []),
        sender_printed := sender_printed w @ [attempt_line (outcome, s)]\<rparr>, None)"
  by (cases outcome)
     (auto simp: send_single_event_def caught_or_accepted_def sender_print_def attempt_line_def)

lemma run_sends:
  "\<forall>i. caught_or_accepted (fst (attempt i)) \<Longrightarrow>
   run_steps (map (\<lambda>i. send_single_event (fst (attempt i)) (snd (attempt i))) js) w =
     (w\<lparr>transmitted := transmitted w
            @ map (\<lambda>i. make_event (snd (attempt i))) (filter (\<lambda>i. fst (attempt i) = None) js),
        sender_printed := sender_printed w @ map (\<lambda>i. attempt_line (attempt i)) js\<rparr>, None)"
proof (induction js arbitrary: w)
  case Nil
  then show ?case by simp
next
  case (Cons j js)
  have "caught_or_accepted (fst (attempt j))" using Cons.prems by blast
  then show ?case
    using Cons.IH [OF Cons.prems]
    by (simp add: send_single_event_caught)
qed

text \<open>
  C7, as the code has it. \<open>send_single_event\<close> catches every \<open>Exception\<close> and prints
  it, so the loop of \<open>send_batch_events\<close> never sees a transport error: every one of
  the \<open>num_events\<close> iterations makes exactly one attempt, in order; the accepted
  events are transmitted once each and the refused ones are not tried again.
\<close>

theorem batch_attempts_every_event:
  assumes "\<forall>i. caught_or_accepted (fst (attempt i))"
  shows "send_batch_events n attempt init_producer =
           (\<lparr>transmitted = map (\<lambda>i. make_event (snd (attempt i)))
                             (filter (\<lambda>i. fst (attempt i) = None) [0..<nat n]),
             sender_printed =
               [SStart n] @ map (\<lambda>i. attempt_line (attempt i)) [0..<nat n] @ [SDone n]\<rparr>,
            None)"
  using run_sends [OF assms]
  by (simp add: send_batch_events_def run_steps_append sender_print_def init_producer_def)

theorem batch_attempts_every_event_witness:
  "(\<forall>i. caught_or_accepted (fst (flaky_attempt i))) \<and>
   send_batch_events 3 flaky_attempt init_producer =
     (\<lparr>transmitted = [make_event (sample_of 0), make_event (sample_of 2)],
       sender_printed = [SStart 3, SSent ''evt_0'' ''purchase'', SError TransportError,
                         SSent ''evt_2'' ''purchase'', SDone 3]\<rparr>, None)"
proof -
  have h: "\<forall>i. caught_or_accepted (fst (flaky_attempt i))"
    by (simp add: flaky_attempt_def caught_or_accepted_def)
  have u: "[0..<3] = [0, 1, 2::nat]"
    by code_simp
  show ?thesis
    using h batch_attempts_every_event [OF h, of 3]
    by (simp add: u flaky_attempt_def [abs_def] attempt_line_def sample_of_def)
qed

text \<open>
  C7, as the claim states it, fails: in a batch of three whose second send meets a
  transport error, the third event is still transmitted.
\<close>

theorem batch_continues_after_error:
  "fst (flaky_attempt 1) = Some TransportError \<and>
   transmitted (fst (send_batch_events 3 flaky_attempt init_producer)) =
     [make_event (sample_of 0), make_event (sample_of 2)]"
proof -
  have u: "[0..<3] = [0, 1, 2::nat]"
    by code_simp
  show ?thesis
    by (simp add: send_batch_events_def u flaky_attempt_def send_single_event_def sender_print_def
        init_producer_def)
qed

section \<open>Bodies that are not JSON\<close>

text \<open>
  C8, as the code has it. Take an event whose \<open>body_as_json()\<close> raises \<open>e\<close> and whose
  \<open>body_as_str()\<close> returns \<open>s\<close>. The handler of the explorer treats it exactly as an
  event whose JSON body is the string \<open>s\<close>: it is buffered with that body and counted,
  and the only exception that can leave the handler is the checkpoint's. The handler of
  \<open>receive_events.py\<close> prints \<open>s\<close> and goes on to the checkpoint. The handler of
  \<open>demo.py\<close> has no fallback: it prints the error, if it is an \<open>Exception\<close>, and
  neither records nor checkpoints the event.
\<close>

theorem raw_body_fallback:
  assumes "body_as_json ev = Inl e" and "body_as_str ev = Inr s"
  shows "on_event ck pc ev w = on_event ck pc (ev\<lparr>body_as_json := Inr (JStr s)\<rparr>) w \<and>
     snd (on_event ck pc ev w) = ck \<and>
     events_buffer (fst (on_event ck pc ev w)) = events_buffer w @ [mk_event_data pc ev (JStr s)] \<and>
     receiver_on_event ck pc ev c =
          update_checkpoint ck pc ev
           (c\<lparr>printed := printed c @
              [LPartition pc, LOffset (ev_offset ev), LSequence (ev_sequence_number ev),
               LEnqueued (ev_enqueued_time ev), LProperties (ev_properties ev), LBodyStr s, LRule]\<rparr>) \<and>
     demo_on_event ck pc ev d =
          (if is_Exception e then (d\<lparr>printed := printed d @ [LError e]\<rparr>, None) else (d, Some e))"
  using assms
  by (cases ck)
     (simp_all add: on_event_unfold parse_event_body_def mk_event_data_def receiver_on_event_def
       receiver_on_event_steps_def print_line_def print_body_def demo_on_event_def demo_try_body_def)

theorem raw_body_fallback_witness:
  "body_as_json raw_event = Inl TypeError \<and> body_as_str raw_event = Inr ''hello'' \<and>
   snd (on_event None ''0'' raw_event init_explorer) = None \<and>
   events_buffer (fst (on_event None ''0'' raw_event init_explorer)) =
     [mk_event_data ''0'' raw_event (JStr ''hello'')] \<and>
   receiver_on_event None ''0'' raw_event init_console =
     (\<lparr>checkpoints = [(''0'', ''101'', 8)],
       printed = [LPartition ''0'', LOffset ''101'', LSequence 8, LEnqueued 6, LProperties [],
                  LBodyStr ''hello'', LRule]\<rparr>, None) \<and>
   demo_on_event None ''0'' raw_event init_demo = (init_demo\<lparr>printed := [LError TypeError]\<rparr>, None)"
proof -
  have j: "body_as_json raw_event = Inl TypeError" and s: "body_as_str raw_event = Inr ''hello''"
    by (simp_all add: raw_event_def)
  have b: "events_buffer init_explorer = []" and p: "printed init_console = []"
     and q: "printed init_demo = []"
    by (simp_all add: init_explorer_def init_console_def init_demo_def)
  note f = raw_body_fallback [OF j s, of None "''0''" init_explorer init_console init_demo,
      THEN conjunct2]
  have g1: "snd (on_event None ''0'' raw_event init_explorer) = None"
    using f by blast
  have g2: "events_buffer (fst (on_event None ''0'' raw_event init_explorer)) =
     [mk_event_data ''0'' raw_event (JStr ''hello'')]"
    using f [THEN conjunct2, THEN conjunct1] b by simp
  have g3: "receiver_on_event None ''0'' raw_event init_console =
     (\<lparr>checkpoints = [(''0'', ''101'', 8)],
       printed = [LPartition ''0'', LOffset ''101'', LSequence 8, LEnqueued 6, LProperties [],
                  LBodyStr ''hello'', LRule]\<rparr>, None)"
    using f [THEN conjunct2, THEN conjunct2, THEN conjunct1]
    by (simp add: update_checkpoint_def init_console_def raw_event_def)
  have g4: "demo_on_event None ''0'' raw_event init_demo =
      (init_demo\<lparr>printed := [LError TypeError]\<rparr>, None)"
    using f [THEN conjunct2, THEN conjunct2, THEN conjunct2] q by simp
  show ?thesis
    using j s g1 g2 g3 g4 by blast
qed

text \<open>
  C8, as the claim states it, fails for the handler of \<open>demo.py\<close>: an event with a plain
  string body is dropped, with an error line as its only trace.
\<close>

theorem demo_drops_raw_event:
  "body_as_json raw_event = Inl TypeError \<and> body_as_str raw_event = Inr ''hello'' \<and>
   demo_on_event None ''0'' raw_event init_demo =
     (\<lparr>checkpoints = [], printed = [LError TypeError], events_received = []\<rparr>, None)"
  by (simp add: demo_on_event_def demo_try_body_def raw_event_def init_demo_def print_line_def)

section \<open>Order of accounting and checkpoint\<close>

lemma take_numerals:
  "take 4 xs = take (Suc (Suc (Suc (Suc 0)))) xs"
  "take 3 xs = take (Suc (Suc (Suc 0))) xs"
  "take 2 xs = take (Suc (Suc 0)) xs"
  by (simp_all add: eval_nat_numeral)

text \<open>
  C9. Cut a run of the handler's statements after any number \<open>k\<close> of them, whatever the
  checkpoint call does. If the run has advanced the checkpoints, then the event is
  already in the buffer and the total and both breakdowns have already been increased
  by one. The same holds for the handler of \<open>demo.py\<close> and its list
  \<open>events_received\<close>.
\<close>

theorem checkpoint_after_accounting:
  "(checkpoints (fst (run_steps (take k (on_event_steps ck pc ev d)) w)) \<noteq> checkpoints w \<longrightarrow>
      events_buffer (fst (run_steps (take k (on_event_steps ck pc ev d)) w)) = events_buffer w @ [d] \<and>
      total_events (stats (fst (run_steps (take k (on_event_steps ck pc ev d)) w)))
        = total_events (stats w) + 1 \<and>
      sum_counts (events_by_type (stats (fst (run_steps (take k (on_event_steps ck pc ev d)) w))))
        = sum_counts (events_by_type (stats w)) + 1 \<and>
      sum_counts (events_by_partition (stats (fst (run_steps (take k (on_event_steps ck pc ev d)) w))))
        = sum_counts (events_by_partition (stats w)) + 1) \<and>
   (checkpoints (fst (run_steps (take j (demo_try_steps ck pc ev b)) m)) \<noteq> checkpoints m \<longrightarrow>
      events_received (fst (run_steps (take j (demo_try_steps ck pc ev b)) m)) =
        events_received m @ [\<lparr>de_partition = pc, de_offset = ev_offset ev,
                               de_properties = ev_properties ev, de_body = b\<rparr>])"
proof -
  have k: "k = 0 \<or> k = 1 \<or> k = 2 \<or> k = 3 \<or> k = 4 \<or> 5 \<le> k" by arith
  have j: "j = 0 \<or> j = 1 \<or> j = 2 \<or> 3 \<le> j" by arith
  have explorer_part:
    "checkpoints (fst (run_steps (take k (on_event_steps ck pc ev d)) w)) \<noteq> checkpoints w \<longrightarrow>
      events_buffer (fst (run_steps (take k (on_event_steps ck pc ev d)) w)) = events_buffer w @ [d] \<and>
      total_events (stats (fst (run_steps (take k (on_event_steps ck pc ev d)) w)))
        = total_events (stats w) + 1 \<and>
      sum_counts (events_by_type (stats (fst (run_steps (take k (on_event_steps ck pc ev d)) w))))
        = sum_counts (events_by_type (stats w)) + 1 \<and>
      sum_counts (events_by_partition (stats (fst (run_steps (take k (on_event_steps ck pc ev d)) w))))
        = sum_counts (events_by_partition (stats w)) + 1"
    using k
    by (cases ck)
       (auto simp: take_numerals on_event_steps_def buffer_append_def count_total_def
          count_type_def count_partition_def update_checkpoint_def sum_counts_bump Let_def)
  have demo_part:
    "checkpoints (fst (run_steps (take j (demo_try_steps ck pc ev b)) m)) \<noteq> checkpoints m \<longrightarrow>
      events_received (fst (run_steps (take j (demo_try_steps ck pc ev b)) m)) =
        events_received m @ [\<lparr>de_partition = pc, de_offset = ev_offset ev,
                               de_properties = ev_properties ev, de_body = b\<rparr>]"
    using j
    by (cases ck)
       (auto simp: take_numerals demo_try_steps_def update_checkpoint_def received_append_def
          print_received_def print_line_def split: sum.splits)
  show ?thesis
    using explorer_part demo_part by blast
qed

theorem checkpoint_after_accounting_witness:
  "checkpoints (fst (run_steps (take 5 (on_event_steps None ''0'' login_event
       (mk_event_data ''0'' login_event (JObj [])))) init_explorer)) \<noteq> checkpoints init_explorer \<and>
   events_buffer (fst (run_steps (take 5 (on_event_steps None ''0'' login_event
       (mk_event_data ''0'' login_event (JObj [])))) init_explorer))
     = [mk_event_data ''0'' login_event (JObj [])] \<and>
   total_events (stats (fst (run_steps (take 5 (on_event_steps None ''0'' login_event
       (mk_event_data ''0'' login_event (JObj [])))) init_explorer))) = 1 \<and>
   checkpoints (fst (run_steps (take 3 (demo_try_steps None ''0'' login_event (JObj []))) init_demo))
     \<noteq> checkpoints init_demo \<and>
   events_received (fst (run_steps (take 3 (demo_try_steps None ''0'' login_event (JObj []))) init_demo))
     = [\<lparr>de_partition = ''0'', de_offset = ''100'',
          de_properties = [(PStr ''event_type'', PStr ''login'')], de_body = JObj []\<rparr>]"
proof -
  let ?d = "mk_event_data ''0'' login_event (JObj [])"
  have h1: "checkpoints (fst (run_steps (take 5 (on_event_steps None ''0'' login_event ?d))
              init_explorer)) \<noteq> checkpoints init_explorer"
    by (simp add: on_event_steps_def buffer_append_def count_total_def count_type_def
        count_partition_def update_checkpoint_def Let_def init_explorer_def)
  have h2: "checkpoints (fst (run_steps (take 3 (demo_try_steps None ''0'' login_event (JObj [])))
              init_demo)) \<noteq> checkpoints init_demo"
    by (simp add: demo_try_steps_def received_append_def print_received_def print_line_def
        update_checkpoint_def init_demo_def)
  note th = checkpoint_after_accounting [of 5 None "''0''" login_event ?d init_explorer
      3 "JObj []" init_demo]
  have c1: "events_buffer (fst (run_steps (take 5 (on_event_steps None ''0'' login_event ?d))
              init_explorer)) = events_buffer init_explorer @ [?d] \<and>
            total_events (stats (fst (run_steps (take 5 (on_event_steps None ''0'' login_event ?d))
              init_explorer))) = total_events (stats init_explorer) + 1"
    using th h1 by blast
  have c2: "events_received (fst (run_steps (take 3 (demo_try_steps None ''0'' login_event (JObj [])))
              init_demo)) = events_received init_demo @
                [\<lparr>de_partition = ''0'', de_offset = ev_offset login_event,
                  de_properties = ev_properties login_event, de_body = JObj []\<rparr>]"
    using th h2 by blast
  have i: "events_buffer init_explorer = []" "total_events (stats init_explorer) = 0"
      "events_received init_demo = []" "ev_offset login_event = ''100''"
      "ev_properties login_event = [(PStr ''event_type'', PStr ''login'')]"
    by (simp_all add: init_explorer_def init_stats_def init_demo_def login_event_def)
  show ?thesis
    using h1 h2 c1 c2 by (simp add: i)
qed

section \<open>Buffer length and total\<close>







end
